theory Spec2Isabelle
  imports Main "HOL-Library.Word"
begin

section \<open>Bytes, errors and the byte-representation helpers\<close>

type_synonym byte = "8 word"
type_synonym ByteArray = "byte list"
type_synonym u32 = "32 word"
type_synonym u64 = "64 word"

text \<open>A thrown JavaScript \<^verbatim>\<open>Error\<close>, with its message.\<close>

datatype error = Error string

text \<open>
  Modelled from the spec: the helpers of \<^verbatim>\<open>byterepr.ts\<close> (\<^verbatim>\<open>toBytesU32\<close>, \<^verbatim>\<open>toBytesU64\<close>,
  \<^verbatim>\<open>toBytesString\<close>, \<^verbatim>\<open>toBytesArrayU8\<close>, \<^verbatim>\<open>toBytesBytesArray\<close>, \<^verbatim>\<open>toBytesDeployHash\<close>,
  \<^verbatim>\<open>toBytesVecT\<close>) are imported by \<^verbatim>\<open>DeployUtil.ts\<close> but are not among the sources. The spec
  (4.1) fixes them: integers are little-endian and fixed-width, byte sequences and strings
  carry an unsigned 32-bit count before the raw bytes, a list is a 32-bit count followed by
  each element's own encoding, a fixed-size hash is raw, and encoding never fails. The numeric
  fields are therefore words of the spec's width, and a count is the length taken as a 32-bit
  word. A string is held as the list of its UTF-8 bytes (a HOL \<^typ>\<open>char\<close> is a byte), so its
  length is the byte length that the prefix counts.
\<close>

fun toBytesNumber :: "nat \<Rightarrow> nat \<Rightarrow> ByteArray" where
  "toBytesNumber 0 v = []"
| "toBytesNumber (Suc byteLength) v = of_nat (v mod 256) # toBytesNumber byteLength (v div 256)"

definition toBytesU32 :: "u32 \<Rightarrow> ByteArray" where
  "toBytesU32 v = toBytesNumber 4 (unat v)"

definition toBytesU64 :: "u64 \<Rightarrow> ByteArray" where
  "toBytesU64 v = toBytesNumber 8 (unat v)"

definition utf8 :: "string \<Rightarrow> ByteArray" where
  "utf8 str = map (\<lambda>c. of_nat (of_char c)) str"

definition toBytesString :: "string \<Rightarrow> ByteArray" where
  "toBytesString str = (let arr = utf8 str in toBytesU32 (of_nat (length arr)) @ arr)"

definition toBytesArrayU8 :: "ByteArray \<Rightarrow> ByteArray" where
  "toBytesArrayU8 arr = toBytesU32 (of_nat (length arr)) @ arr"

definition toBytesBytesArray :: "ByteArray \<Rightarrow> ByteArray" where
  "toBytesBytesArray arr = arr"

definition toBytesDeployHash :: "ByteArray \<Rightarrow> ByteArray" where
  "toBytesDeployHash deployHash = toBytesBytesArray deployHash"

definition toBytesVecT :: "('a \<Rightarrow> ByteArray) \<Rightarrow> 'a list \<Rightarrow> ByteArray" where
  "toBytesVecT elemToBytes vec = toBytesU32 (of_nat (length vec)) @ concat (map elemToBytes vec)"

text \<open>
  The layout in the spec's words, to compare the helpers with: byte \<open>i\<close> of a little-endian
  integer is the value shifted right by \<open>8 * i\<close> bits, truncated to eight bits.
\<close>

definition little_endian :: "nat \<Rightarrow> 'a::len word \<Rightarrow> ByteArray" where
  "little_endian width v = map (\<lambda>i. ucast (drop_bit (8 * i) v)) [0..<width]"

section \<open>The optional-value encoder (option.ts)\<close>

definition OPTION_TAG_NONE :: byte where
  "OPTION_TAG_NONE = 0"

definition OPTION_TAG_SOME :: byte where
  "OPTION_TAG_SOME = 1"

text \<open>
  \<^verbatim>\<open>class Option\<close>: the wrapped value \<open>t\<close> (\<^verbatim>\<open>null\<close> is \<open>None\<close>) and the type descriptor
  \<open>innerType\<close> (\<open>None\<close> when the constructor got no descriptor). The wrapped value is any
  \<^verbatim>\<open>CLTypedAndToBytes\<close>; its two methods \<^verbatim>\<open>toBytes()\<close> and \<^verbatim>\<open>clType()\<close> are passed as the
  functions \<open>valueToBytes\<close> and \<open>valueClType\<close>.
\<close>

record ('v, 'ty) Option =
  t :: "'v option"
  innerType :: "'ty option"

definition Option_new ::
  "('v \<Rightarrow> 'ty) \<Rightarrow> 'v option \<Rightarrow> 'ty option \<Rightarrow> error + ('v, 'ty) Option" where
  "Option_new valueClType t0 innerType0 =
     (case t0 of
        None \<Rightarrow>
          (case innerType0 of
             None \<Rightarrow> Inl (Error ''You had to assign innerType for None'')
           | Some ty \<Rightarrow> Inr \<lparr>t = None, innerType = Some ty\<rparr>)
      | Some v \<Rightarrow> Inr \<lparr>t = Some v, innerType = Some (valueClType v)\<rparr>)"

definition isNone :: "('v, 'ty) Option \<Rightarrow> bool" where
  "isNone opt = (t opt = None)"

definition isSome :: "('v, 'ty) Option \<Rightarrow> bool" where
  "isSome opt = (t opt \<noteq> None)"

definition Option_toBytes :: "('v \<Rightarrow> ByteArray) \<Rightarrow> ('v, 'ty) Option \<Rightarrow> ByteArray" where
  "Option_toBytes valueToBytes opt =
     (case t opt of
        None \<Rightarrow> [OPTION_TAG_NONE]
      | Some v \<Rightarrow> concat [[OPTION_TAG_SOME], valueToBytes v])"

section \<open>External collaborators\<close>

text \<open>
  Modelled from the spec: the signature algorithms (\<^verbatim>\<open>Keys.ts\<close>, not among the sources). The
  spec (6) says two are supported; \<^verbatim>\<open>signDeploy\<close> and \<^verbatim>\<open>setSignature\<close> name them.
\<close>

datatype SignatureAlgorithm = Ed25519 | Secp256K1

text \<open>
  Modelled from the spec: \<^verbatim>\<open>PublicKey\<close> (\<^verbatim>\<open>CLValue.ts\<close>) and \<^verbatim>\<open>AsymmetricKey\<close> (\<^verbatim>\<open>Keys.ts\<close>) are
  not among the sources. The spec treats them as opaque collaborators, and the deploy code
  only calls methods on them, so a key is represented by what those methods return.
\<close>

record PublicKey =
  PublicKey_toBytes :: ByteArray
  toAccountHex :: string
  toAccountHash :: ByteArray
  PublicKey_signatureAlgorithm :: SignatureAlgorithm

record AsymmetricKey =
  sign :: "ByteArray \<Rightarrow> ByteArray"
  accountHex :: string
  signatureAlgorithm :: SignatureAlgorithm

text \<open>
  Modelled from the spec: the static renderers \<^verbatim>\<open>Keys.Ed25519.accountHex\<close> and
  \<^verbatim>\<open>Keys.Secp256K1.accountHex\<close> (algorithm-tagged hex strings, spec 3 and 6) are not among the
  sources; the functions that use them take them in this record.
\<close>

record Keys =
  Ed25519_accountHex :: "ByteArray \<Rightarrow> string"
  Secp256K1_accountHex :: "ByteArray \<Rightarrow> string"

text \<open>
  Modelled from the spec: \<^verbatim>\<open>encodeBase16\<close> (\<^verbatim>\<open>Conversions.ts\<close>, not among the sources), the hex
  rendering of a byte array: two lower-case hex digits per byte.
\<close>

definition hexDigit :: "nat \<Rightarrow> char" where
  "hexDigit n = ''0123456789abcdef'' ! n"

definition encodeBase16 :: "ByteArray \<Rightarrow> string" where
  "encodeBase16 bytes = concat (map (\<lambda>b. [hexDigit (unat b div 16), hexDigit (unat b mod 16)]) bytes)"

text \<open>
  Modelled from the spec: the typed-value system (\<^verbatim>\<open>CLValue.ts\<close>, \<^verbatim>\<open>RuntimeArgs.ts\<close>) is not
  among the sources. Of it the deploy code uses: the descriptors \<^verbatim>\<open>CLTypeHelper.u32()\<close> and
  \<^verbatim>\<open>CLTypeHelper.u64()\<close>; the 32-bit and 64-bit values \<^verbatim>\<open>U32\<close> and \<^verbatim>\<open>U64\<close>, which encode as
  fixed-width little-endian integers; the purse reference \<^verbatim>\<open>URef\<close>, on which no method is
  called; the factories \<^verbatim>\<open>CLValue.u512\<close>, \<^verbatim>\<open>CLValue.uref\<close>, \<^verbatim>\<open>CLValue.byteArray\<close> and
  \<^verbatim>\<open>CLValue.option\<close>, the last one wrapping \<^verbatim>\<open>new Option(t, innerType)\<close>; and the argument map,
  an ordered mapping from names to values with \<^verbatim>\<open>insert\<close>, a lookup by name and a
  serialisation, which is passed to the encoders as the function \<open>argsToBytes\<close>. An amount
  (\<^verbatim>\<open>BigNumberish\<close>) is an integer.
\<close>

datatype CLType = CLTypeHelper_u32 | CLTypeHelper_u64

datatype U32 = U32 u32

datatype U64 = U64 u64

fun U32_toBytes :: "U32 \<Rightarrow> ByteArray" where
  "U32_toBytes (U32 v) = toBytesU32 v"

fun U32_clType :: "U32 \<Rightarrow> CLType" where
  "U32_clType (U32 v) = CLTypeHelper_u32"

fun U64_toBytes :: "U64 \<Rightarrow> ByteArray" where
  "U64_toBytes (U64 v) = toBytesU64 v"

fun U64_clType :: "U64 \<Rightarrow> CLType" where
  "U64_clType (U64 v) = CLTypeHelper_u64"

typedecl URef

type_synonym BigNumberish = int

datatype CLValue =
    CLValue_u512 BigNumberish
  | CLValue_uref URef
  | CLValue_byteArray ByteArray
  | CLValue_of_Option "(U64, CLType) Option"

definition CLValue_option :: "U64 option \<Rightarrow> CLType option \<Rightarrow> error + CLValue" where
  "CLValue_option t0 innerType0 =
     (case Option_new U64_clType t0 innerType0 of
        Inl e \<Rightarrow> Inl e
      | Inr opt \<Rightarrow> Inr (CLValue_of_Option opt))"

type_synonym 'v RuntimeArgs = "(string \<times> 'v) list"

definition RuntimeArgs_fromMap :: "(string \<times> 'v) list \<Rightarrow> 'v RuntimeArgs" where
  "RuntimeArgs_fromMap entries = entries"

text \<open>\<^verbatim>\<open>this.args[key] = value\<close>: a key already present keeps its place, a new one goes last.\<close>

fun RuntimeArgs_insert :: "string \<Rightarrow> 'v \<Rightarrow> 'v RuntimeArgs \<Rightarrow> 'v RuntimeArgs" where
  "RuntimeArgs_insert key v [] = [(key, v)]"
| "RuntimeArgs_insert key v ((k, x) # rest) =
     (if k = key then (k, v) # rest else (k, x) # RuntimeArgs_insert key v rest)"

section \<open>Execution items (DeployUtil.ts)\<close>

text \<open>
  The six subclasses of \<^verbatim>\<open>ExecutableDeployItem\<close>, with their fields in the order of their
  constructors; a version that is \<^verbatim>\<open>null\<close> is \<open>None\<close>. The type parameter is the type of
  the argument values.
\<close>

datatype 'v ExecutableDeployItem =
    ModuleBytes ByteArray "'v RuntimeArgs"
  | StoredContractByHash ByteArray string "'v RuntimeArgs"
  | StoredContractByName string string "'v RuntimeArgs"
  | StoredVersionedContractByName string "u32 option" string "'v RuntimeArgs"
  | StoredVersionedContractByHash ByteArray "u32 option" string "'v RuntimeArgs"
  | Transfer "'v RuntimeArgs"

fun tag :: "'v ExecutableDeployItem \<Rightarrow> nat" where
  "tag (ModuleBytes moduleBytes as) = 0"
| "tag (StoredContractByHash h entryPoint as) = 1"
| "tag (StoredContractByName name entryPoint as) = 2"
| "tag (StoredVersionedContractByName name version entryPoint as) = 4"
| "tag (StoredVersionedContractByHash h version entryPoint as) = 3"
| "tag (Transfer as) = 5"

fun args :: "'v ExecutableDeployItem \<Rightarrow> 'v RuntimeArgs" where
  "args (ModuleBytes moduleBytes as) = as"
| "args (StoredContractByHash h entryPoint as) = as"
| "args (StoredContractByName name entryPoint as) = as"
| "args (StoredVersionedContractByName name version entryPoint as) = as"
| "args (StoredVersionedContractByHash h version entryPoint as) = as"
| "args (Transfer as) = as"

definition getArgByName :: "'v ExecutableDeployItem \<Rightarrow> string \<Rightarrow> 'v option" where
  "getArgByName item argName = map_of (args item) argName"

text \<open>
  The two versioned variants build their \<^verbatim>\<open>serializedVersion\<close> the same way:
  \<^verbatim>\<open>new Option(null, CLTypeHelper.u32())\<close> for no version, \<^verbatim>\<open>new Option(new U32(version))\<close>
  otherwise.
\<close>

definition serializedVersion :: "u32 option \<Rightarrow> error + (U32, CLType) Option" where
  "serializedVersion version =
     (case version of
        None \<Rightarrow> Option_new U32_clType None (Some CLTypeHelper_u32)
      | Some v \<Rightarrow> Option_new U32_clType (Some (U32 v)) None)"

definition ExecutableDeployItem_toBytes ::
  "('v RuntimeArgs \<Rightarrow> ByteArray) \<Rightarrow> 'v ExecutableDeployItem \<Rightarrow> error + ByteArray" where
  "ExecutableDeployItem_toBytes argsToBytes item =
     (case item of
        ModuleBytes moduleBytes as \<Rightarrow>
          Inr (concat [[of_nat (tag item)], toBytesArrayU8 moduleBytes,
                       toBytesArrayU8 (argsToBytes as)])
      | StoredContractByHash h entryPoint as \<Rightarrow>
          Inr (concat [[of_nat (tag item)], toBytesBytesArray h, toBytesString entryPoint,
                       toBytesArrayU8 (argsToBytes as)])
      | StoredContractByName name entryPoint as \<Rightarrow>
          Inr (concat [[of_nat (tag item)], toBytesString name, toBytesString entryPoint,
                       toBytesArrayU8 (argsToBytes as)])
      | StoredVersionedContractByName name version entryPoint as \<Rightarrow>
          (case serializedVersion version of
             Inl e \<Rightarrow> Inl e
           | Inr sv \<Rightarrow>
               Inr (concat [[of_nat (tag item)], toBytesString name,
                            Option_toBytes U32_toBytes sv, toBytesString entryPoint,
                            toBytesArrayU8 (argsToBytes as)]))
      | StoredVersionedContractByHash h version entryPoint as \<Rightarrow>
          (case serializedVersion version of
             Inl e \<Rightarrow> Inl e
           | Inr sv \<Rightarrow>
               Inr (concat [[of_nat (tag item)], toBytesBytesArray h,
                            Option_toBytes U32_toBytes sv, toBytesString entryPoint,
                            toBytesArrayU8 (argsToBytes as)]))
      | Transfer as \<Rightarrow>
          Inr (concat [[of_nat (tag item)], toBytesArrayU8 (argsToBytes as)]))"

text \<open>
  The constructor of \<^verbatim>\<open>Transfer\<close>. The target is a run-time value: a \<^verbatim>\<open>URef\<close>, a
  \<^verbatim>\<open>PublicKey\<close>, or anything else (\<^verbatim>\<open>undefined\<close> when none is supplied). \<^verbatim>\<open>if (sourcePurse)\<close>
  and \<^verbatim>\<open>if (!id)\<close> are truthiness tests: an object is truthy, \<^verbatim>\<open>undefined\<close>, \<^verbatim>\<open>null\<close> and the
  number \<open>0\<close> are not, so \<^verbatim>\<open>!id\<close> holds for an id that is \<^verbatim>\<open>null\<close> (the default) and for
  the id \<open>0\<close>.
\<close>

datatype TransferTarget = TargetURef URef | TargetPublicKey PublicKey | TargetOther

definition Transfer_new ::
  "BigNumberish \<Rightarrow> TransferTarget \<Rightarrow> URef option \<Rightarrow> u64 option \<Rightarrow>
     error + CLValue ExecutableDeployItem" where
  "Transfer_new amount target sourcePurse ident =
     (let runtimeArgs = RuntimeArgs_fromMap [];
          runtimeArgs = RuntimeArgs_insert ''amount'' (CLValue_u512 amount) runtimeArgs;
          runtimeArgs =
            (case sourcePurse of
               Some purse \<Rightarrow> RuntimeArgs_insert ''source'' (CLValue_uref purse) runtimeArgs
             | None \<Rightarrow> runtimeArgs)
      in case
           (case target of
              TargetURef uref \<Rightarrow> Inr (RuntimeArgs_insert ''target'' (CLValue_uref uref) runtimeArgs)
            | TargetPublicKey pk \<Rightarrow>
                Inr (RuntimeArgs_insert ''target'' (CLValue_byteArray (toAccountHash pk)) runtimeArgs)
            | TargetOther \<Rightarrow> Inl (Error ''Please specify target''))
         of
           Inl e \<Rightarrow> Inl e
         | Inr runtimeArgs \<Rightarrow>
             (case
                (case ident of
                   None \<Rightarrow> CLValue_option None (Some CLTypeHelper_u64)
                 | Some n \<Rightarrow>
                     if n = 0 then CLValue_option None (Some CLTypeHelper_u64)
                     else CLValue_option (Some (U64 n)) (Some CLTypeHelper_u64))
              of
                Inl e \<Rightarrow> Inl e
              | Inr idValue \<Rightarrow> Inr (Transfer (RuntimeArgs_insert ''id'' idValue runtimeArgs))))"

section \<open>The tagged-union wrapper\<close>

record 'v ExecutableDeployItemJsonWrapper =
  moduleBytes :: "'v ExecutableDeployItem option"
  storedContractByHash :: "'v ExecutableDeployItem option"
  storedContractByName :: "'v ExecutableDeployItem option"
  storedVersionedContractByHash :: "'v ExecutableDeployItem option"
  storedVersionedContractByName :: "'v ExecutableDeployItem option"
  transfer :: "'v ExecutableDeployItem option"

text \<open>The predicates \<^verbatim>\<open>isX()\<close> are \<^verbatim>\<open>!!this.x\<close>: the slot holds an object.\<close>

definition isModuleBytes :: "'v ExecutableDeployItemJsonWrapper \<Rightarrow> bool" where
  "isModuleBytes w = (moduleBytes w \<noteq> None)"

definition isStoredContractByHash :: "'v ExecutableDeployItemJsonWrapper \<Rightarrow> bool" where
  "isStoredContractByHash w = (storedContractByHash w \<noteq> None)"

definition isStoredContractByName :: "'v ExecutableDeployItemJsonWrapper \<Rightarrow> bool" where
  "isStoredContractByName w = (storedContractByName w \<noteq> None)"

definition isStoredVersionContractByName :: "'v ExecutableDeployItemJsonWrapper \<Rightarrow> bool" where
  "isStoredVersionContractByName w = (storedVersionedContractByName w \<noteq> None)"

definition isStoredVersionContractByHash :: "'v ExecutableDeployItemJsonWrapper \<Rightarrow> bool" where
  "isStoredVersionContractByHash w = (storedVersionedContractByHash w \<noteq> None)"

definition isTransfer :: "'v ExecutableDeployItemJsonWrapper \<Rightarrow> bool" where
  "isTransfer w = (transfer w \<noteq> None)"

text \<open>
  \<^verbatim>\<open>this.x!.toBytes()\<close> on a slot: the call is reached only where the slot holds an item,
  and it runs that item's own \<^verbatim>\<open>toBytes\<close>.
\<close>

definition slot_toBytes ::
  "('v RuntimeArgs \<Rightarrow> ByteArray) \<Rightarrow> 'v ExecutableDeployItem option \<Rightarrow> error + ByteArray" where
  "slot_toBytes argsToBytes slot =
     (case slot of
        Some item \<Rightarrow> ExecutableDeployItem_toBytes argsToBytes item
      | None \<Rightarrow> Inl (Error ''Cannot read properties of undefined''))"

definition Wrapper_toBytes ::
  "('v RuntimeArgs \<Rightarrow> ByteArray) \<Rightarrow> 'v ExecutableDeployItemJsonWrapper \<Rightarrow> error + ByteArray" where
  "Wrapper_toBytes argsToBytes w =
     (if isModuleBytes w then slot_toBytes argsToBytes (moduleBytes w)
      else if isStoredContractByHash w then slot_toBytes argsToBytes (storedContractByHash w)
      else if isStoredContractByName w then slot_toBytes argsToBytes (storedContractByName w)
      else if isStoredVersionContractByHash w
        then slot_toBytes argsToBytes (storedVersionedContractByHash w)
      else if isStoredVersionContractByName w
        then slot_toBytes argsToBytes (storedVersionedContractByName w)
      else if isTransfer w then slot_toBytes argsToBytes (transfer w)
      else Inl (Error ''failed to serialize ExecutableDeployItemJsonWrapper''))"

definition Wrapper_empty :: "'v ExecutableDeployItemJsonWrapper" where
  "Wrapper_empty =
     \<lparr>moduleBytes = None, storedContractByHash = None, storedContractByName = None,
      storedVersionedContractByHash = None, storedVersionedContractByName = None,
      transfer = None\<rparr>"

definition fromExecutionDeployItem ::
  "'v ExecutableDeployItem \<Rightarrow> 'v ExecutableDeployItemJsonWrapper" where
  "fromExecutionDeployItem item =
     (let res = Wrapper_empty in
      if tag item = 0 then res\<lparr>moduleBytes := Some item\<rparr>
      else if tag item = 1 then res\<lparr>storedContractByHash := Some item\<rparr>
      else if tag item = 2 then res\<lparr>storedContractByName := Some item\<rparr>
      else if tag item = 3 then res\<lparr>storedVersionedContractByHash := Some item\<rparr>
      else if tag item = 4 then res\<lparr>storedVersionedContractByName := Some item\<rparr>
      else if tag item = 5 then res\<lparr>transfer := Some item\<rparr>
      else res)"

definition newModuleBytes ::
  "ByteArray \<Rightarrow> 'v RuntimeArgs \<Rightarrow> 'v ExecutableDeployItemJsonWrapper" where
  "newModuleBytes bytes as = fromExecutionDeployItem (ModuleBytes bytes as)"

definition newStoredContractByHash ::
  "ByteArray \<Rightarrow> u32 option \<Rightarrow> string \<Rightarrow> 'v RuntimeArgs \<Rightarrow> 'v ExecutableDeployItemJsonWrapper" where
  "newStoredContractByHash h version entryPoint as =
     fromExecutionDeployItem (StoredVersionedContractByHash h version entryPoint as)"

definition newStoredContractByName ::
  "string \<Rightarrow> string \<Rightarrow> 'v RuntimeArgs \<Rightarrow> 'v ExecutableDeployItemJsonWrapper" where
  "newStoredContractByName name entryPoint as =
     fromExecutionDeployItem (StoredContractByName name entryPoint as)"

definition newStoredVersionContractByHash ::
  "ByteArray \<Rightarrow> u32 option \<Rightarrow> string \<Rightarrow> 'v RuntimeArgs \<Rightarrow> 'v ExecutableDeployItemJsonWrapper" where
  "newStoredVersionContractByHash h version entryPoint as =
     fromExecutionDeployItem (StoredVersionedContractByHash h version entryPoint as)"

definition newStoredVersionContractByName ::
  "string \<Rightarrow> u32 option \<Rightarrow> string \<Rightarrow> 'v RuntimeArgs \<Rightarrow> 'v ExecutableDeployItemJsonWrapper" where
  "newStoredVersionContractByName name version entryPoint as =
     fromExecutionDeployItem (StoredVersionedContractByName name version entryPoint as)"

definition newTransfer ::
  "BigNumberish \<Rightarrow> TransferTarget \<Rightarrow> URef option \<Rightarrow> u64 option \<Rightarrow>
     error + CLValue ExecutableDeployItemJsonWrapper" where
  "newTransfer amount target sourcePurse ident =
     (case Transfer_new amount target sourcePurse ident of
        Inl e \<Rightarrow> Inl e
      | Inr item \<Rightarrow> Inr (fromExecutionDeployItem item))"

section \<open>Deploy parameters, header and assembly\<close>

text \<open>
  \<^verbatim>\<open>DeployParams\<close> after its constructor has run. An argument left out (\<^verbatim>\<open>undefined\<close>) is
  \<open>None\<close> and takes its default; \<open>now\<close> is what \<^verbatim>\<open>Date.now()\<close> returns. \<^verbatim>\<open>!timestamp\<close> holds for a
  timestamp left out and for the timestamp \<open>0\<close>.
\<close>

record DeployParams =
  accountPublicKey :: PublicKey
  chainName :: string
  gasPrice :: u64
  ttl :: u64
  dependencies :: "ByteArray list"
  timestamp :: u64

definition DeployParams_new ::
  "u64 \<Rightarrow> PublicKey \<Rightarrow> string \<Rightarrow> u64 option \<Rightarrow> u64 option \<Rightarrow> ByteArray list option \<Rightarrow>
     u64 option \<Rightarrow> DeployParams" where
  "DeployParams_new now accountPublicKey0 chainName0 gasPrice0 ttl0 dependencies0 timestamp0 =
     (let gasPrice1 = (case gasPrice0 of None \<Rightarrow> 10 | Some g \<Rightarrow> g);
          ttl1 = (case ttl0 of None \<Rightarrow> 3600000 | Some l \<Rightarrow> l);
          dependencies1 = (case dependencies0 of None \<Rightarrow> [] | Some ds \<Rightarrow> ds)
      in \<lparr>accountPublicKey = accountPublicKey0,
          chainName = chainName0,
          gasPrice = gasPrice1,
          ttl = ttl1,
          dependencies =
            filter (\<lambda>d. length (filter (\<lambda>x. encodeBase16 d = encodeBase16 x) dependencies1) < 2)
              dependencies1,
          timestamp =
            (case timestamp0 of None \<Rightarrow> now | Some ts \<Rightarrow> if ts = 0 then now else ts)\<rparr>)"

record DeployHeader =
  account :: PublicKey
  timestamp :: u64
  ttl :: u64
  gasPrice :: u64
  bodyHash :: ByteArray
  dependencies :: "ByteArray list"
  chainName :: string

text \<open>\<^verbatim>\<open>class DeployHash\<close> wraps one hash; its \<^verbatim>\<open>toBytes\<close> is \<^verbatim>\<open>toBytesDeployHash\<close>.\<close>

datatype DeployHash = DeployHash ByteArray

fun DeployHash_toBytes :: "DeployHash \<Rightarrow> ByteArray" where
  "DeployHash_toBytes (DeployHash h) = toBytesDeployHash h"

definition DeployHeader_toBytes :: "DeployHeader \<Rightarrow> ByteArray" where
  "DeployHeader_toBytes self =
     concat [
       PublicKey_toBytes (account self),
       toBytesU64 (DeployHeader.timestamp self),
       toBytesU64 (DeployHeader.ttl self),
       toBytesU64 (DeployHeader.gasPrice self),
       toBytesDeployHash (bodyHash self),
       toBytesVecT DeployHash_toBytes (map DeployHash (DeployHeader.dependencies self)),
       toBytesString (DeployHeader.chainName self)]"

record Approval =
  signer :: string
  signature :: string

record 'v Deploy =
  hash :: ByteArray
  header :: DeployHeader
  payment :: "'v ExecutableDeployItemJsonWrapper"
  session :: "'v ExecutableDeployItemJsonWrapper"
  approvals :: "Approval list"

definition serializeHeader :: "DeployHeader \<Rightarrow> ByteArray" where
  "serializeHeader deployHeader = DeployHeader_toBytes deployHeader"

definition serializeBody ::
  "('v RuntimeArgs \<Rightarrow> ByteArray) \<Rightarrow> 'v ExecutableDeployItemJsonWrapper \<Rightarrow>
     'v ExecutableDeployItemJsonWrapper \<Rightarrow> error + ByteArray" where
  "serializeBody argsToBytes payment0 session0 =
     (case Wrapper_toBytes argsToBytes payment0 of
        Inl e \<Rightarrow> Inl e
      | Inr paymentBytes \<Rightarrow>
          (case Wrapper_toBytes argsToBytes session0 of
             Inl e \<Rightarrow> Inl e
           | Inr sessionBytes \<Rightarrow> Inr (concat [paymentBytes, sessionBytes])))"

text \<open>
  \<^verbatim>\<open>makeDeploy\<close>. The hash function \<^verbatim>\<open>blake.blake2b(input, key, outlen)\<close> is an external
  library: it is the parameter \<open>blake2b\<close>, called as the source calls it, with no key and an
  output length of 32.
\<close>

definition makeDeploy ::
  "(ByteArray \<Rightarrow> ByteArray option \<Rightarrow> nat \<Rightarrow> ByteArray) \<Rightarrow> ('v RuntimeArgs \<Rightarrow> ByteArray) \<Rightarrow>
     DeployParams \<Rightarrow> 'v ExecutableDeployItemJsonWrapper \<Rightarrow> 'v ExecutableDeployItemJsonWrapper \<Rightarrow>
     error + 'v Deploy" where
  "makeDeploy blake2b argsToBytes deployParam session0 payment0 =
     (case serializeBody argsToBytes payment0 session0 of
        Inl e \<Rightarrow> Inl e
      | Inr serializedBody \<Rightarrow>
          (let bodyHash0 = blake2b serializedBody None 32;
               header0 = \<lparr>account = accountPublicKey deployParam,
                          timestamp = DeployParams.timestamp deployParam,
                          ttl = DeployParams.ttl deployParam,
                          gasPrice = DeployParams.gasPrice deployParam,
                          bodyHash = bodyHash0,
                          dependencies = DeployParams.dependencies deployParam,
                          chainName = DeployParams.chainName deployParam\<rparr>;
               serializedHeader = serializeHeader header0;
               deployHash = blake2b serializedHeader None 32
           in Inr \<lparr>hash = deployHash, header = header0, payment = payment0,
                   session = session0, approvals = []\<rparr>))"

section \<open>The approval protocol\<close>

text \<open>
  \<^verbatim>\<open>signDeploy\<close> and \<^verbatim>\<open>setSignature\<close> push onto the approvals of the \<^verbatim>\<open>Deploy\<close> object they are
  given and return that object. Objects live in a store, from references to their current
  values; a function takes the store and a reference, and returns the new store and the
  reference it returns.
\<close>

type_synonym ref = nat

type_synonym 'v store = "ref \<Rightarrow> 'v Deploy"

definition push_approval :: "'v store \<Rightarrow> ref \<Rightarrow> Approval \<Rightarrow> 'v store" where
  "push_approval st deploy approval =
     st(deploy := (st deploy)\<lparr>approvals := approvals (st deploy) @ [approval]\<rparr>)"

definition signDeploy_approval :: "Keys \<Rightarrow> ByteArray \<Rightarrow> AsymmetricKey \<Rightarrow> Approval" where
  "signDeploy_approval keys deployHash signingKey =
     (let signature0 = sign signingKey deployHash
      in \<lparr>signer = accountHex signingKey,
          signature =
            (case signatureAlgorithm signingKey of
               Ed25519 \<Rightarrow> Ed25519_accountHex keys signature0
             | Secp256K1 \<Rightarrow> Secp256K1_accountHex keys signature0)\<rparr>)"

definition signDeploy :: "Keys \<Rightarrow> 'v store \<Rightarrow> ref \<Rightarrow> AsymmetricKey \<Rightarrow> 'v store \<times> ref" where
  "signDeploy keys st deploy signingKey =
     (let approval = signDeploy_approval keys (hash (st deploy)) signingKey
      in (push_approval st deploy approval, deploy))"

definition setSignature_approval :: "Keys \<Rightarrow> ByteArray \<Rightarrow> PublicKey \<Rightarrow> Approval" where
  "setSignature_approval keys sig publicKey =
     \<lparr>signer = toAccountHex publicKey,
      signature =
        (case PublicKey_signatureAlgorithm publicKey of
           Ed25519 \<Rightarrow> Ed25519_accountHex keys sig
         | Secp256K1 \<Rightarrow> Secp256K1_accountHex keys sig)\<rparr>"

definition setSignature ::
  "Keys \<Rightarrow> 'v store \<Rightarrow> ref \<Rightarrow> ByteArray \<Rightarrow> PublicKey \<Rightarrow> 'v store \<times> ref" where
  "setSignature keys st deploy sig publicKey =
     (let approval = setSignature_approval keys sig publicKey
      in (push_approval st deploy approval, deploy))"

text \<open>
  A sequence of signing calls on one \<^verbatim>\<open>Deploy\<close>: each call is made on the reference the
  caller holds; the references the calls returned are collected, in call order.
\<close>

datatype signing_call = SignDeploy AsymmetricKey | SetSignature ByteArray PublicKey

fun run_call :: "Keys \<Rightarrow> 'v store \<Rightarrow> ref \<Rightarrow> signing_call \<Rightarrow> 'v store \<times> ref" where
  "run_call keys st deploy (SignDeploy signingKey) = signDeploy keys st deploy signingKey"
| "run_call keys st deploy (SetSignature sig publicKey) = setSignature keys st deploy sig publicKey"

fun run_calls :: "Keys \<Rightarrow> 'v store \<Rightarrow> ref \<Rightarrow> signing_call list \<Rightarrow> 'v store \<times> ref list" where
  "run_calls keys st deploy [] = (st, [])"
| "run_calls keys st deploy (c # cs) =
     (let (st1, returned) = run_call keys st deploy c;
          (st2, rest) = run_calls keys st1 deploy cs
      in (st2, returned # rest))"

text \<open>The approval a call appends, given the hash of the \<^verbatim>\<open>Deploy\<close> it is made on.\<close>

fun approval_of :: "Keys \<Rightarrow> ByteArray \<Rightarrow> signing_call \<Rightarrow> Approval" where
  "approval_of keys deployHash (SignDeploy signingKey) =
     signDeploy_approval keys deployHash signingKey"
| "approval_of keys deployHash (SetSignature sig publicKey) =
     setSignature_approval keys sig publicKey"

section \<open>The wire layout in the spec's words\<close>

text \<open>
  A variable-length byte sequence is length-prefixed: an unsigned 32-bit little-endian count,
  then the raw bytes (spec 4.1).
\<close>

definition length_prefixed :: "ByteArray \<Rightarrow> ByteArray" where
  "length_prefixed bytes = little_endian 4 (of_nat (length bytes) :: u32) @ bytes"

text \<open>
  An optional 32-bit version: the byte \<open>0\<close> when absent, the byte \<open>1\<close> and the version as a
  32-bit little-endian integer when present (spec 4.2, 4.3).
\<close>

definition optional_u32 :: "u32 option \<Rightarrow> ByteArray" where
  "optional_u32 version =
     (case version of None \<Rightarrow> [0x00] | Some v \<Rightarrow> 0x01 # little_endian 4 v)"

text \<open>
  The populated slots of a wrapper, in the order in which \<^verbatim>\<open>toBytes\<close> tests them.
\<close>

definition populated :: "'v ExecutableDeployItemJsonWrapper \<Rightarrow> 'v ExecutableDeployItem list" where
  "populated w =
     List.map_filter id
       [moduleBytes w, storedContractByHash w, storedContractByName w,
        storedVersionedContractByHash w, storedVersionedContractByName w, transfer w]"

section \<open>Example inputs\<close>

text \<open>
  Concrete inputs on which the theorems below are instantiated. The external functions are
  replaced by simple stand-ins: a serialisation of the argument map that lists its names, a
  hash that pads or cuts its input to the requested length, and hex renderings with an
  algorithm tag in front.
\<close>

definition example_argsToBytes :: "CLValue RuntimeArgs \<Rightarrow> ByteArray" where
  "example_argsToBytes as = utf8 (concat (map fst as))"

definition example_blake2b :: "ByteArray \<Rightarrow> ByteArray option \<Rightarrow> nat \<Rightarrow> ByteArray" where
  "example_blake2b input key outlen = take outlen (input @ replicate outlen 0)"

definition example_publicKey :: PublicKey where
  "example_publicKey =
     \<lparr>PublicKey_toBytes = [0x01, 0xAB], toAccountHex = ''01ab'', toAccountHash = [0xCD],
      PublicKey_signatureAlgorithm = Ed25519\<rparr>"

definition example_signingKey :: AsymmetricKey where
  "example_signingKey = \<lparr>sign = rev, accountHex = ''02ef'', signatureAlgorithm = Secp256K1\<rparr>"

definition example_Ed25519_accountHex :: "ByteArray \<Rightarrow> string" where
  "example_Ed25519_accountHex bytes = ''01'' @ encodeBase16 bytes"

definition example_Secp256K1_accountHex :: "ByteArray \<Rightarrow> string" where
  "example_Secp256K1_accountHex bytes = ''02'' @ encodeBase16 bytes"

definition example_keys :: Keys where
  "example_keys =
     \<lparr>Ed25519_accountHex = example_Ed25519_accountHex,
      Secp256K1_accountHex = example_Secp256K1_accountHex\<rparr>"

definition example_payment :: "CLValue ExecutableDeployItemJsonWrapper" where
  "example_payment = newModuleBytes [] [(''amount'', CLValue_u512 2500000000)]"

definition example_session :: "CLValue ExecutableDeployItemJsonWrapper" where
  "example_session = newStoredContractByName ''c'' ''run'' []"

definition example_two_slots :: "CLValue ExecutableDeployItemJsonWrapper" where
  "example_two_slots =
     \<lparr>moduleBytes = Some (ModuleBytes [] []), storedContractByHash = None,
      storedContractByName = None, storedVersionedContractByHash = None,
      storedVersionedContractByName = None, transfer = Some (Transfer [])\<rparr>"

definition example_params :: DeployParams where
  "example_params = DeployParams_new 5 example_publicKey ''net'' None None None None"

definition example_header :: DeployHeader where
  "example_header =
     \<lparr>account = example_publicKey, timestamp = 0x0102, ttl = 3600000, gasPrice = 10,
      bodyHash = [0xAA, 0xBB], dependencies = [[0x11], [0x22]], chainName = ''net''\<rparr>"

definition example_signed_deploy :: "CLValue Deploy" where
  "example_signed_deploy =
     \<lparr>hash = [0x01, 0x02], header = example_header, payment = example_payment,
      session = example_session,
      approvals = [\<lparr>signer = ''01ab'', signature = ''010201''\<rparr>]\<rparr>"

definition example_store :: "CLValue store" where
  "example_store r = example_signed_deploy"

section \<open>Theorems\<close>

subsection \<open>The optional-value encoder\<close>

lemma Option_new_Some:
  "Option_new valueClType (Some v) ty = Inr \<lparr>t = Some v, innerType = Some (valueClType v)\<rparr>"
  by (simp add: Option_new_def)

lemma Option_new_None:
  "Option_new valueClType None (Some ty) = Inr \<lparr>t = None, innerType = Some ty\<rparr>"
  by (simp add: Option_new_def)

text \<open>
  C7. An \<^verbatim>\<open>Option\<close> without a value encodes as the single byte \<open>0x00\<close>; one holding \<open>v\<close>
  encodes as \<open>0x01\<close> followed by \<open>v\<close>'s own encoding, whatever \<open>v\<close> and its encoder are.
  Constructing an \<^verbatim>\<open>Option\<close> with neither a value nor a type descriptor fails.
\<close>

theorem Option_toBytes_encoding:
  "Option_toBytes valueToBytes opt =
     (case t opt of None \<Rightarrow> [0x00] | Some v \<Rightarrow> 0x01 # valueToBytes v)
   \<and> Option_new valueClType None None = Inl (Error ''You had to assign innerType for None'')"
  by (simp add: Option_toBytes_def Option_new_def OPTION_TAG_NONE_def OPTION_TAG_SOME_def
      split: option.split)

subsection \<open>The byte-representation helpers are little-endian and length-prefixed\<close>

lemma of_nat_mod_256: "(of_nat (v mod 256) :: byte) = of_nat v"
  by (simp add: word_of_nat_eq_iff take_bit_eq_mod)

lemma toBytesNumber_digits:
  "toBytesNumber n v = map (\<lambda>i. of_nat (v div 256 ^ i)) [0..<n]"
proof (induction n arbitrary: v)
  case 0
  then show ?case by simp
next
  case (Suc n)
  have "[0..<Suc n] = 0 # map Suc [0..<n]"
    by (simp add: upt_conv_Cons map_Suc_upt del: upt_Suc)
  then show ?case
    by (simp add: Suc.IH of_nat_mod_256 div_mult2_eq comp_def del: upt_Suc)
qed

lemma ucast_drop_bit_digit:
  "(ucast (drop_bit (8 * i) w) :: byte) = of_nat (unat w div 256 ^ i)"
proof -
  have "(256::nat) ^ i = 2 ^ (8 * i)"
    by (simp add: power_mult)
  moreover have "(ucast (drop_bit (8 * i) w) :: byte) = of_nat (unat (drop_bit (8 * i) w))"
    by simp
  moreover have "unat (drop_bit (8 * i) w) = unat w div 2 ^ (8 * i)"
    by (subst unat_drop_bit_eq) (rule drop_bit_eq_div)
  ultimately show ?thesis
    by simp
qed

lemma toBytesNumber_little_endian: "toBytesNumber n (unat w) = little_endian n w"
  by (simp add: toBytesNumber_digits little_endian_def ucast_drop_bit_digit)

lemma toBytesU32_little_endian: "toBytesU32 v = little_endian 4 v"
  by (simp add: toBytesU32_def toBytesNumber_little_endian)

lemma toBytesU64_little_endian: "toBytesU64 v = little_endian 8 v"
  by (simp add: toBytesU64_def toBytesNumber_little_endian)

lemma length_little_endian: "length (little_endian n w) = n"
  by (simp add: little_endian_def)

lemma toBytesArrayU8_length_prefixed: "toBytesArrayU8 arr = length_prefixed arr"
  by (simp add: toBytesArrayU8_def length_prefixed_def toBytesU32_little_endian)

lemma toBytesString_length_prefixed: "toBytesString str = length_prefixed (utf8 str)"
  by (simp add: toBytesString_def length_prefixed_def toBytesU32_little_endian Let_def)

lemma toBytesVecT_DeployHash:
  "toBytesVecT DeployHash_toBytes (map DeployHash hs) =
     little_endian 4 (of_nat (length hs) :: u32) @ concat hs"
proof -
  have "map DeployHash_toBytes (map DeployHash hs) = hs"
    by (induction hs) (simp_all add: toBytesDeployHash_def toBytesBytesArray_def)
  then show ?thesis
    by (simp add: toBytesVecT_def toBytesU32_little_endian)
qed

lemma serializedVersion_ok:
  "serializedVersion version =
     Inr \<lparr>t = map_option U32 version, innerType = Some CLTypeHelper_u32\<rparr>"
  by (cases version) (simp_all add: serializedVersion_def Option_new_def)

lemma Option_toBytes_version:
  "Option_toBytes U32_toBytes \<lparr>t = map_option U32 version, innerType = ty\<rparr> = optional_u32 version"
  by (cases version)
    (simp_all add: Option_toBytes_def optional_u32_def OPTION_TAG_NONE_def OPTION_TAG_SOME_def
      toBytesU32_little_endian)

subsection \<open>Header and execution-item layout\<close>

text \<open>
  C2. The encoding of a header is, in this order: the account key's own encoding, the
  timestamp, the ttl and the gas price as 64-bit little-endian integers, the body hash raw,
  the number of dependencies as a 32-bit little-endian count followed by each dependency
  raw in list order, and the chain name as a 32-bit byte count followed by its UTF-8 bytes.
\<close>

theorem DeployHeader_toBytes_layout:
  "DeployHeader_toBytes h =
     PublicKey_toBytes (account h)
     @ little_endian 8 (DeployHeader.timestamp h)
     @ little_endian 8 (DeployHeader.ttl h)
     @ little_endian 8 (DeployHeader.gasPrice h)
     @ bodyHash h
     @ (little_endian 4 (of_nat (length (DeployHeader.dependencies h)) :: u32)
        @ concat (DeployHeader.dependencies h))
     @ length_prefixed (utf8 (DeployHeader.chainName h))"
  by (simp add: DeployHeader_toBytes_def toBytesU64_little_endian toBytesVecT_DeployHash
      toBytesString_length_prefixed toBytesDeployHash_def toBytesBytesArray_def)

text \<open>
  C3. Every execution item encodes as its discriminant byte (0 to 5) followed by its fields
  in the order of the spec's table: byte sequences, strings and the serialised arguments are
  length-prefixed, a contract hash is raw, a version is an optional 32-bit integer. The
  encoding always succeeds.
\<close>

theorem ExecutableDeployItem_toBytes_layout:
  "ExecutableDeployItem_toBytes argsToBytes (ModuleBytes moduleBytes0 as) =
     Inr (0 # length_prefixed moduleBytes0 @ length_prefixed (argsToBytes as))
   \<and> ExecutableDeployItem_toBytes argsToBytes (StoredContractByHash h entryPoint as) =
     Inr (1 # h @ length_prefixed (utf8 entryPoint) @ length_prefixed (argsToBytes as))
   \<and> ExecutableDeployItem_toBytes argsToBytes (StoredContractByName name entryPoint as) =
     Inr (2 # length_prefixed (utf8 name) @ length_prefixed (utf8 entryPoint)
            @ length_prefixed (argsToBytes as))
   \<and> ExecutableDeployItem_toBytes argsToBytes
         (StoredVersionedContractByHash h version entryPoint as) =
     Inr (3 # h @ optional_u32 version @ length_prefixed (utf8 entryPoint)
            @ length_prefixed (argsToBytes as))
   \<and> ExecutableDeployItem_toBytes argsToBytes
         (StoredVersionedContractByName name version entryPoint as) =
     Inr (4 # length_prefixed (utf8 name) @ optional_u32 version
            @ length_prefixed (utf8 entryPoint) @ length_prefixed (argsToBytes as))
   \<and> ExecutableDeployItem_toBytes argsToBytes (Transfer as) =
     Inr (5 # length_prefixed (argsToBytes as))"
  by (simp add: ExecutableDeployItem_toBytes_def serializedVersion_ok Option_toBytes_version
      toBytesArrayU8_length_prefixed toBytesString_length_prefixed toBytesBytesArray_def)

subsection \<open>Instances of the layout theorems\<close>

theorem DeployHeader_toBytes_layout_witness:
  "DeployHeader_toBytes example_header =
     [0x01, 0xAB] @ [0x02, 0x01, 0, 0, 0, 0, 0, 0] @ [0x80, 0xEE, 0x36, 0, 0, 0, 0, 0]
     @ [10, 0, 0, 0, 0, 0, 0, 0] @ [0xAA, 0xBB] @ [2, 0, 0, 0, 0x11, 0x22]
     @ [3, 0, 0, 0, 110, 101, 116]"
  using DeployHeader_toBytes_layout [of example_header]
  by (simp add: example_header_def example_publicKey_def little_endian_def length_prefixed_def
      utf8_def upt_rec)

theorem ExecutableDeployItem_toBytes_layout_witness:
  "ExecutableDeployItem_toBytes example_argsToBytes
      (ModuleBytes [] [(''amount'', CLValue_u512 2500000000)]) =
     Inr ([0] @ [0, 0, 0, 0] @ [6, 0, 0, 0, 97, 109, 111, 117, 110, 116])
   \<and> ExecutableDeployItem_toBytes example_argsToBytes
      (StoredVersionedContractByHash [0xAA, 0xBB] (Some 7) ''run'' []) =
     Inr ([3] @ [0xAA, 0xBB] @ [1, 7, 0, 0, 0] @ [3, 0, 0, 0, 114, 117, 110] @ [0, 0, 0, 0])
   \<and> ExecutableDeployItem_toBytes example_argsToBytes
      (StoredVersionedContractByName ''c'' None ''run'' []) =
     Inr ([4] @ [1, 0, 0, 0, 99] @ [0] @ [3, 0, 0, 0, 114, 117, 110] @ [0, 0, 0, 0])"
  using ExecutableDeployItem_toBytes_layout
    [of example_argsToBytes "[]" "[(''amount'', CLValue_u512 2500000000)]" "[0xAA, 0xBB]" "''run''"
        "''c''" "Some 7" ]
    ExecutableDeployItem_toBytes_layout
    [of example_argsToBytes "[]" "[]" "[0xAA, 0xBB]" "''run''" "''c''" "None"]
    ExecutableDeployItem_toBytes_layout
    [of example_argsToBytes "[]" "[]" "[0xAA, 0xBB]" "''run''" "''c''" "Some 7"]
  by (simp add: example_argsToBytes_def little_endian_def length_prefixed_def optional_u32_def
      utf8_def upt_rec)

subsection \<open>The tagged-union wrapper\<close>

lemma Wrapper_toBytes_populated:
  "Wrapper_toBytes argsToBytes w =
     (case populated w of
        [] \<Rightarrow> Inl (Error ''failed to serialize ExecutableDeployItemJsonWrapper'')
      | item # others \<Rightarrow> ExecutableDeployItem_toBytes argsToBytes item)"
  by (cases "moduleBytes w"; cases "storedContractByHash w"; cases "storedContractByName w";
      cases "storedVersionedContractByHash w"; cases "storedVersionedContractByName w";
      cases "transfer w")
    (simp_all add: Wrapper_toBytes_def populated_def slot_toBytes_def List.map_filter_simps
      isModuleBytes_def isStoredContractByHash_def isStoredContractByName_def
      isStoredVersionContractByHash_def isStoredVersionContractByName_def isTransfer_def)

lemma populated_fromExecutionDeployItem: "populated (fromExecutionDeployItem item) = [item]"
  by (cases item)
    (simp_all add: populated_def fromExecutionDeployItem_def Wrapper_empty_def
      List.map_filter_simps)

lemma Wrapper_toBytes_fromExecutionDeployItem:
  "Wrapper_toBytes argsToBytes (fromExecutionDeployItem item) =
     ExecutableDeployItem_toBytes argsToBytes item"
  by (simp add: Wrapper_toBytes_populated populated_fromExecutionDeployItem)

text \<open>
  C4, as the code has it. \<^verbatim>\<open>toBytes\<close> of the wrapper fails with the encoding error when no slot
  is populated. Otherwise it returns the \<^verbatim>\<open>toBytes\<close> of the first populated slot in the order
  moduleBytes, storedContractByHash, storedContractByName, storedVersionedContractByHash,
  storedVersionedContractByName, transfer: with exactly one slot populated that is the
  populated variant's own encoding, and a wrapper with more than one slot populated is not
  rejected.
\<close>

theorem Wrapper_toBytes_first_populated:
  "Wrapper_toBytes argsToBytes w =
     (case populated w of
        [] \<Rightarrow> Inl (Error ''failed to serialize ExecutableDeployItemJsonWrapper'')
      | item # others \<Rightarrow> ExecutableDeployItem_toBytes argsToBytes item)"
  by (rule Wrapper_toBytes_populated)

theorem Wrapper_toBytes_first_populated_witness:
  "Wrapper_toBytes example_argsToBytes Wrapper_empty =
     Inl (Error ''failed to serialize ExecutableDeployItemJsonWrapper'')
   \<and> Wrapper_toBytes example_argsToBytes example_session =
     ExecutableDeployItem_toBytes example_argsToBytes (StoredContractByName ''c'' ''run'' [])
   \<and> Wrapper_toBytes example_argsToBytes example_two_slots =
     ExecutableDeployItem_toBytes example_argsToBytes (ModuleBytes [] [])"
  using Wrapper_toBytes_first_populated [of example_argsToBytes Wrapper_empty]
    Wrapper_toBytes_first_populated [of example_argsToBytes example_session]
    Wrapper_toBytes_first_populated [of example_argsToBytes example_two_slots]
  by (simp add: populated_def Wrapper_empty_def example_session_def example_two_slots_def
      newStoredContractByName_def fromExecutionDeployItem_def List.map_filter_simps)

theorem Wrapper_toBytes_two_slots_counterexample:
  "populated example_two_slots = [ModuleBytes [] [], Transfer []]
   \<and> Wrapper_toBytes example_argsToBytes example_two_slots = Inr [0, 0, 0, 0, 0, 0, 0, 0, 0]"
  by (simp add: populated_def example_two_slots_def List.map_filter_simps Wrapper_toBytes_def
      isModuleBytes_def slot_toBytes_def ExecutableDeployItem_toBytes_def toBytesArrayU8_def
      toBytesU32_little_endian little_endian_def example_argsToBytes_def utf8_def upt_rec)

text \<open>
  C9. The factory \<^verbatim>\<open>newStoredContractByHash\<close> builds a \<^verbatim>\<open>StoredVersionedContractByHash\<close> (tag 3) and
  so fills the storedVersionedContractByHash slot, not the storedContractByHash slot: the
  wrapper's encoding starts with the byte 3, it is not the encoding of a
  \<^verbatim>\<open>StoredContractByHash\<close>, and \<^verbatim>\<open>isStoredContractByHash()\<close> is false.
\<close>

theorem newStoredContractByHash_is_versioned:
  "storedVersionedContractByHash (newStoredContractByHash h version entryPoint as) =
     Some (StoredVersionedContractByHash h version entryPoint as)
   \<and> storedContractByHash (newStoredContractByHash h version entryPoint as) = None
   \<and> \<not> isStoredContractByHash (newStoredContractByHash h version entryPoint as)
   \<and> isStoredVersionContractByHash (newStoredContractByHash h version entryPoint as)
   \<and> populated (newStoredContractByHash h version entryPoint as) =
       [StoredVersionedContractByHash h version entryPoint as]
   \<and> tag (StoredVersionedContractByHash h version entryPoint as) = 3
   \<and> Wrapper_toBytes argsToBytes (newStoredContractByHash h version entryPoint as) =
       Inr (3 # h @ optional_u32 version @ length_prefixed (utf8 entryPoint)
              @ length_prefixed (argsToBytes as))
   \<and> Wrapper_toBytes argsToBytes (newStoredContractByHash h version entryPoint as) \<noteq>
       ExecutableDeployItem_toBytes argsToBytes (StoredContractByHash h entryPoint as)"
proof -
  let ?item = "StoredVersionedContractByHash h version entryPoint as"
  have w: "newStoredContractByHash h version entryPoint as = fromExecutionDeployItem ?item"
    by (simp add: newStoredContractByHash_def)
  have slots:
    "storedVersionedContractByHash (fromExecutionDeployItem ?item) = Some ?item"
    "storedContractByHash (fromExecutionDeployItem ?item) = None"
    by (simp_all add: fromExecutionDeployItem_def Wrapper_empty_def)
  have bytes:
    "Wrapper_toBytes argsToBytes (fromExecutionDeployItem ?item) =
       Inr (3 # h @ optional_u32 version @ length_prefixed (utf8 entryPoint)
              @ length_prefixed (argsToBytes as))"
    by (simp add: Wrapper_toBytes_fromExecutionDeployItem ExecutableDeployItem_toBytes_def
        serializedVersion_ok Option_toBytes_version toBytesArrayU8_length_prefixed
        toBytesString_length_prefixed toBytesBytesArray_def)
  have other:
    "ExecutableDeployItem_toBytes argsToBytes (StoredContractByHash h entryPoint as) =
       Inr (1 # h @ length_prefixed (utf8 entryPoint) @ length_prefixed (argsToBytes as))"
    by (simp add: ExecutableDeployItem_toBytes_def toBytesArrayU8_length_prefixed
        toBytesString_length_prefixed toBytesBytesArray_def)
  show ?thesis
    unfolding w
    by (simp add: slots bytes other isStoredContractByHash_def isStoredVersionContractByHash_def
        populated_fromExecutionDeployItem)
qed

theorem newStoredContractByHash_is_versioned_witness:
  "storedVersionedContractByHash
      (newStoredContractByHash [0xAA] None ''run'' [] :: CLValue ExecutableDeployItemJsonWrapper) =
     Some (StoredVersionedContractByHash [0xAA] None ''run'' [])
   \<and> \<not> isStoredContractByHash
      (newStoredContractByHash [0xAA] None ''run'' [] :: CLValue ExecutableDeployItemJsonWrapper)
   \<and> Wrapper_toBytes example_argsToBytes (newStoredContractByHash [0xAA] None ''run'' []) =
     Inr [3, 0xAA, 0, 3, 0, 0, 0, 114, 117, 110, 0, 0, 0, 0]"
  using newStoredContractByHash_is_versioned [of "[0xAA]" None "''run''" "[]" example_argsToBytes]
  by (simp add: example_argsToBytes_def little_endian_def length_prefixed_def optional_u32_def
      utf8_def upt_rec)

subsection \<open>Deploy assembly\<close>

text \<open>
  C1. For payment and session wrappers that encode (to \<open>paymentBytes\<close> and \<open>sessionBytes\<close>),
  \<^verbatim>\<open>makeDeploy\<close> returns a \<^verbatim>\<open>Deploy\<close> whose body hash is the 32-byte blake2b digest of the payment
  bytes followed by the session bytes, whose hash is the 32-byte blake2b digest of the encoded
  header, and whose approvals are empty.
\<close>

theorem makeDeploy_hashes:
  assumes "Wrapper_toBytes argsToBytes payment0 = Inr paymentBytes"
    and "Wrapper_toBytes argsToBytes session0 = Inr sessionBytes"
  shows "\<exists>deploy.
           makeDeploy blake2b argsToBytes deployParam session0 payment0 = Inr deploy
           \<and> bodyHash (header deploy) = blake2b (paymentBytes @ sessionBytes) None 32
           \<and> hash deploy = blake2b (DeployHeader_toBytes (header deploy)) None 32
           \<and> approvals deploy = []
           \<and> payment deploy = payment0 \<and> session deploy = session0"
  using assms by (simp add: makeDeploy_def serializeBody_def serializeHeader_def Let_def)

theorem makeDeploy_hashes_witness:
  "Wrapper_toBytes example_argsToBytes example_payment =
     Inr [0, 0, 0, 0, 0, 6, 0, 0, 0, 97, 109, 111, 117, 110, 116]
   \<and> Wrapper_toBytes example_argsToBytes example_session =
     Inr [2, 1, 0, 0, 0, 99, 3, 0, 0, 0, 114, 117, 110, 0, 0, 0, 0]
   \<and> (\<exists>deploy.
         makeDeploy example_blake2b example_argsToBytes example_params example_session
           example_payment = Inr deploy
         \<and> bodyHash (header deploy) =
             example_blake2b
               ([0, 0, 0, 0, 0, 6, 0, 0, 0, 97, 109, 111, 117, 110, 116]
                @ [2, 1, 0, 0, 0, 99, 3, 0, 0, 0, 114, 117, 110, 0, 0, 0, 0]) None 32
         \<and> hash deploy = example_blake2b (DeployHeader_toBytes (header deploy)) None 32
         \<and> approvals deploy = []
         \<and> payment deploy = example_payment \<and> session deploy = example_session)"
proof -
  have p: "Wrapper_toBytes example_argsToBytes example_payment =
      Inr [0, 0, 0, 0, 0, 6, 0, 0, 0, 97, 109, 111, 117, 110, 116]"
    by (simp add: example_payment_def newModuleBytes_def Wrapper_toBytes_fromExecutionDeployItem
        ExecutableDeployItem_toBytes_def toBytesArrayU8_length_prefixed length_prefixed_def
        little_endian_def example_argsToBytes_def utf8_def upt_rec)
  have s: "Wrapper_toBytes example_argsToBytes example_session =
      Inr [2, 1, 0, 0, 0, 99, 3, 0, 0, 0, 114, 117, 110, 0, 0, 0, 0]"
    by (simp add: example_session_def newStoredContractByName_def
        Wrapper_toBytes_fromExecutionDeployItem ExecutableDeployItem_toBytes_def
        toBytesArrayU8_length_prefixed toBytesString_length_prefixed length_prefixed_def
        little_endian_def example_argsToBytes_def utf8_def upt_rec)
  show ?thesis
    using p s makeDeploy_hashes [OF p s, of example_blake2b example_params]
    by simp
qed

subsection \<open>Deploy parameters\<close>

lemma hexDigit_inj_on: "inj_on hexDigit {0..<16}"
proof -
  have "distinct (map hexDigit [0..<16])"
    by (simp add: hexDigit_def upt_rec)
  then have "inj_on hexDigit (set [0..<16])"
    by (simp only: distinct_map)
  then show ?thesis
    by simp
qed

lemma hexDigit_eq_iff: "m < 16 \<Longrightarrow> n < 16 \<Longrightarrow> hexDigit m = hexDigit n \<longleftrightarrow> m = n"
  using hexDigit_inj_on by (auto simp: inj_on_def)

lemma byte_hex_eq:
  fixes a b :: byte
  assumes "hexDigit (unat a div 16) = hexDigit (unat b div 16)"
    and "hexDigit (unat a mod 16) = hexDigit (unat b mod 16)"
  shows "a = b"
proof -
  have "unat a < 256" "unat b < 256"
    using unsigned_less [of a, where ?'a = nat] unsigned_less [of b, where ?'a = nat] by simp_all
  then have "unat a div 16 < 16" "unat b div 16 < 16"
    by simp_all
  with assms have "unat a div 16 = unat b div 16" "unat a mod 16 = unat b mod 16"
    by (simp_all add: hexDigit_eq_iff)
  then have "unat a = unat b"
    by (metis div_mult_mod_eq)
  then show ?thesis
    by (simp add: word_unat_eq_iff)
qed

lemma encodeBase16_eq_iff: "encodeBase16 xs = encodeBase16 ys \<longleftrightarrow> xs = ys"
proof (induction xs arbitrary: ys)
  case Nil
  then show ?case by (cases ys) (simp_all add: encodeBase16_def)
next
  case (Cons x xs)
  show ?case
  proof (cases ys)
    case Nil
    then show ?thesis by (simp add: encodeBase16_def)
  next
    case (Cons y ys')
    have "encodeBase16 (x # xs) = encodeBase16 (y # ys') \<longleftrightarrow>
        hexDigit (unat x div 16) = hexDigit (unat y div 16)
        \<and> hexDigit (unat x mod 16) = hexDigit (unat y mod 16)
        \<and> encodeBase16 xs = encodeBase16 ys'"
      by (simp add: encodeBase16_def)
    also have "\<dots> \<longleftrightarrow> x = y \<and> xs = ys'"
      using Cons.IH [of ys'] byte_hex_eq [of x y] by auto
    finally show ?thesis
      using Cons by simp
  qed
qed

lemma length_filter_encodeBase16:
  "length (filter (\<lambda>x. encodeBase16 d = encodeBase16 x) ds) = count_list ds d"
  by (induction ds) (auto simp add: encodeBase16_eq_iff)

text \<open>
  C5. The constructor of \<^verbatim>\<open>DeployParams\<close> stores exactly the given dependencies whose value
  occurs fewer than two times in the given list, in their order: every occurrence of a value
  that appears two or more times is dropped, none is kept. Without a list it stores none.
\<close>

theorem DeployParams_dependencies_drop_all_duplicates:
  "DeployParams.dependencies
      (DeployParams_new now accountPublicKey0 chainName0 gasPrice0 ttl0 (Some deps) timestamp0) =
     filter (\<lambda>d. count_list deps d < 2) deps
   \<and> DeployParams.dependencies
      (DeployParams_new now accountPublicKey0 chainName0 gasPrice0 ttl0 None timestamp0) = []"
  by (simp add: DeployParams_new_def length_filter_encodeBase16)

theorem DeployParams_dependencies_drop_all_duplicates_witness:
  "DeployParams.dependencies
      (DeployParams_new 5 example_publicKey ''net'' None None
         (Some [[0x11], [0x22], [0x11], [0x33], [0x11]]) None) =
     [[0x22], [0x33]]"
  using DeployParams_dependencies_drop_all_duplicates
    [of 5 example_publicKey "''net''" None None "[[0x11], [0x22], [0x11], [0x33], [0x11]]" None]
  by simp

subsection \<open>The constructor of Transfer\<close>

lemma map_of_RuntimeArgs_insert:
  "map_of (RuntimeArgs_insert key v as) k = (if k = key then Some v else map_of as k)"
  by (induction as) auto

lemma getArgByName_Transfer_insert:
  "getArgByName (Transfer (RuntimeArgs_insert key v as)) key = Some v"
  by (simp add: getArgByName_def map_of_RuntimeArgs_insert)

lemma CLValue_option_None:
  "CLValue_option None (Some ty) = Inr (CLValue_of_Option \<lparr>t = None, innerType = Some ty\<rparr>)"
  by (simp add: CLValue_option_def Option_new_def)

lemma CLValue_option_Some:
  "CLValue_option (Some v) ty =
     Inr (CLValue_of_Option \<lparr>t = Some v, innerType = Some (U64_clType v)\<rparr>)"
  by (simp add: CLValue_option_def Option_new_def)

lemma Transfer_new_id_entry:
  assumes "Transfer_new amount target sourcePurse ident = Inr item"
  shows "getArgByName item ''id'' =
     Some (CLValue_of_Option
       \<lparr>t = (case ident of None \<Rightarrow> None | Some n \<Rightarrow> if n = 0 then None else Some (U64 n)),
        innerType = Some CLTypeHelper_u64\<rparr>)"
  using assms
  by (cases target; cases ident)
    (auto simp add: Transfer_new_def Let_def CLValue_option_None CLValue_option_Some
      getArgByName_Transfer_insert split: if_splits)

text \<open>
  C6. Constructing a \<^verbatim>\<open>Transfer\<close> without a target fails with the error
  \<^verbatim>\<open>Please specify target\<close>. With only an amount and a target (a \<^verbatim>\<open>URef\<close> or a public key) it
  succeeds, and whenever no id is given the argument map has the key \<^verbatim>\<open>id\<close>, holding an
  \<^verbatim>\<open>Option\<close> without a value.
\<close>

theorem Transfer_new_target_and_id:
  "Transfer_new amount TargetOther sourcePurse ident = Inl (Error ''Please specify target'')
   \<and> Transfer_new amount (TargetURef uref) None None =
       Inr (Transfer
         [(''amount'', CLValue_u512 amount), (''target'', CLValue_uref uref),
          (''id'', CLValue_of_Option \<lparr>t = None, innerType = Some CLTypeHelper_u64\<rparr>)])
   \<and> Transfer_new amount (TargetPublicKey pk) None None =
       Inr (Transfer
         [(''amount'', CLValue_u512 amount), (''target'', CLValue_byteArray (toAccountHash pk)),
          (''id'', CLValue_of_Option \<lparr>t = None, innerType = Some CLTypeHelper_u64\<rparr>)])
   \<and> (\<exists>item. Transfer_new amount (TargetURef uref) sourcePurse None = Inr item
         \<and> getArgByName item ''id'' =
             Some (CLValue_of_Option \<lparr>t = None, innerType = Some CLTypeHelper_u64\<rparr>))
   \<and> (\<exists>item. Transfer_new amount (TargetPublicKey pk) sourcePurse None = Inr item
         \<and> getArgByName item ''id'' =
             Some (CLValue_of_Option \<lparr>t = None, innerType = Some CLTypeHelper_u64\<rparr>))"
  by (cases sourcePurse)
    (simp_all add: Transfer_new_def Let_def RuntimeArgs_fromMap_def CLValue_option_None
      getArgByName_def map_of_RuntimeArgs_insert)

theorem Transfer_new_target_and_id_witness:
  "Transfer_new 100 TargetOther None None = Inl (Error ''Please specify target'')
   \<and> Transfer_new 100 (TargetPublicKey example_publicKey) None None =
       Inr (Transfer
         [(''amount'', CLValue_u512 100), (''target'', CLValue_byteArray [0xCD]),
          (''id'', CLValue_of_Option \<lparr>t = None, innerType = Some CLTypeHelper_u64\<rparr>)])
   \<and> getArgByName
         (Transfer
           [(''amount'', CLValue_u512 100), (''target'', CLValue_byteArray [0xCD]),
            (''id'', CLValue_of_Option \<lparr>t = None, innerType = Some CLTypeHelper_u64\<rparr>)])
         ''id'' =
       Some (CLValue_of_Option \<lparr>t = None, innerType = Some CLTypeHelper_u64\<rparr>)"
  using Transfer_new_target_and_id [of 100 None None _ example_publicKey]
  by (simp add: example_publicKey_def getArgByName_def)

text \<open>
  C10. A \<^verbatim>\<open>Transfer\<close> constructed with the id \<open>0\<close> is the one constructed without an id: its
  \<^verbatim>\<open>id\<close> entry is the \<^verbatim>\<open>Option\<close> without a value, and no construction stores an \<^verbatim>\<open>Option\<close>
  holding \<open>0\<close> under \<^verbatim>\<open>id\<close>.
\<close>

theorem Transfer_new_id_zero_is_none:
  "Transfer_new amount target sourcePurse (Some 0) = Transfer_new amount target sourcePurse None
   \<and> (\<exists>item. Transfer_new amount (TargetURef uref) sourcePurse (Some 0) = Inr item
         \<and> getArgByName item ''id'' =
             Some (CLValue_of_Option \<lparr>t = None, innerType = Some CLTypeHelper_u64\<rparr>))
   \<and> (\<exists>item. Transfer_new amount (TargetPublicKey pk) sourcePurse (Some 0) = Inr item
         \<and> getArgByName item ''id'' =
             Some (CLValue_of_Option \<lparr>t = None, innerType = Some CLTypeHelper_u64\<rparr>))
   \<and> (\<forall>ident item ty.
         Transfer_new amount target sourcePurse ident = Inr item \<longrightarrow>
         getArgByName item ''id'' \<noteq>
           Some (CLValue_of_Option \<lparr>t = Some (U64 0), innerType = ty\<rparr>))"
proof -
  have same: "Transfer_new amount tg sourcePurse (Some 0) =
      Transfer_new amount tg sourcePurse None" for tg
    by (simp add: Transfer_new_def cong: sum.case_cong)
  have ex: "\<exists>item. Transfer_new amount tg sourcePurse None = Inr item
         \<and> getArgByName item ''id'' =
             Some (CLValue_of_Option \<lparr>t = None, innerType = Some CLTypeHelper_u64\<rparr>)"
    if "tg \<noteq> TargetOther" for tg
    using that
    by (cases tg; cases sourcePurse)
      (simp_all add: Transfer_new_def Let_def CLValue_option_None getArgByName_Transfer_insert)
  have never: "getArgByName item ''id'' \<noteq>
           Some (CLValue_of_Option \<lparr>t = Some (U64 0), innerType = ty\<rparr>)"
    if "Transfer_new amount target sourcePurse ident = Inr item" for ident item ty
    using Transfer_new_id_entry [OF that] by (auto split: option.splits if_splits)
  show ?thesis
    using ex [of "TargetURef uref"] ex [of "TargetPublicKey pk"] never
    by (simp add: same)
qed

theorem Transfer_new_id_zero_is_none_witness:
  "Transfer_new 100 (TargetPublicKey example_publicKey) None (Some 0) =
     Transfer_new 100 (TargetPublicKey example_publicKey) None None
   \<and> Transfer_new 100 (TargetPublicKey example_publicKey) None (Some 0) =
       Inr (Transfer
         [(''amount'', CLValue_u512 100), (''target'', CLValue_byteArray [0xCD]),
          (''id'', CLValue_of_Option \<lparr>t = None, innerType = Some CLTypeHelper_u64\<rparr>)])
   \<and> Transfer_new 100 (TargetPublicKey example_publicKey) None (Some 7) =
       Inr (Transfer
         [(''amount'', CLValue_u512 100), (''target'', CLValue_byteArray [0xCD]),
          (''id'', CLValue_of_Option \<lparr>t = Some (U64 7), innerType = Some CLTypeHelper_u64\<rparr>)])
   \<and> getArgByName
         (Transfer
           [(''amount'', CLValue_u512 100), (''target'', CLValue_byteArray [0xCD]),
            (''id'', CLValue_of_Option \<lparr>t = None, innerType = Some CLTypeHelper_u64\<rparr>)])
         ''id'' \<noteq>
       Some (CLValue_of_Option \<lparr>t = Some (U64 0), innerType = Some CLTypeHelper_u64\<rparr>)"
proof -
  have r: "Transfer_new 100 (TargetPublicKey example_publicKey) None (Some 0) =
       Inr (Transfer
         [(''amount'', CLValue_u512 100), (''target'', CLValue_byteArray [0xCD]),
          (''id'', CLValue_of_Option \<lparr>t = None, innerType = Some CLTypeHelper_u64\<rparr>)])"
    by (simp add: Transfer_new_def Let_def RuntimeArgs_fromMap_def CLValue_option_None
        example_publicKey_def)
  have r7: "Transfer_new 100 (TargetPublicKey example_publicKey) None (Some 7) =
       Inr (Transfer
         [(''amount'', CLValue_u512 100), (''target'', CLValue_byteArray [0xCD]),
          (''id'', CLValue_of_Option \<lparr>t = Some (U64 7), innerType = Some CLTypeHelper_u64\<rparr>)])"
    by (simp add: Transfer_new_def Let_def RuntimeArgs_fromMap_def CLValue_option_Some
        example_publicKey_def)
  from Transfer_new_id_zero_is_none
    [of 100 "TargetPublicKey example_publicKey" None _ example_publicKey]
  have "Transfer_new 100 (TargetPublicKey example_publicKey) None (Some 0) =
      Transfer_new 100 (TargetPublicKey example_publicKey) None None"
    and "\<forall>ident item ty.
         Transfer_new 100 (TargetPublicKey example_publicKey) None ident = Inr item \<longrightarrow>
         getArgByName item ''id'' \<noteq>
           Some (CLValue_of_Option \<lparr>t = Some (U64 0), innerType = ty\<rparr>)"
    by simp_all
  with r r7 show ?thesis
    by (simp add: getArgByName_def)
qed

subsection \<open>The approval protocol\<close>

lemma run_call_effect:
  "run_call keys st deploy c =
     (push_approval st deploy (approval_of keys (hash (st deploy)) c), deploy)"
  by (cases c) (simp_all add: signDeploy_def setSignature_def Let_def)

lemma hash_push_approval: "hash (push_approval st deploy a deploy) = hash (st deploy)"
  by (simp add: push_approval_def)

lemma approvals_push_approval:
  "approvals (push_approval st deploy a deploy) = approvals (st deploy) @ [a]"
  by (simp add: push_approval_def)

lemma push_approval_rest:
  "(push_approval st deploy a deploy)\<lparr>approvals := as\<rparr> = (st deploy)\<lparr>approvals := as\<rparr>"
  by (simp add: push_approval_def)

lemma push_approval_other: "r \<noteq> deploy \<Longrightarrow> push_approval st deploy a r = st r"
  by (simp add: push_approval_def)

lemma run_calls_effect:
  "approvals (fst (run_calls keys st deploy calls) deploy) =
     approvals (st deploy) @ map (approval_of keys (hash (st deploy))) calls
   \<and> snd (run_calls keys st deploy calls) = replicate (length calls) deploy
   \<and> (fst (run_calls keys st deploy calls) deploy)\<lparr>approvals := as\<rparr> =
       (st deploy)\<lparr>approvals := as\<rparr>"
proof (induction calls arbitrary: st)
  case Nil
  then show ?case by simp
next
  case (Cons c calls)
  let ?st1 = "push_approval st deploy (approval_of keys (hash (st deploy)) c)"
  show ?case
    using Cons.IH [of ?st1]
    by (simp add: run_call_effect split_beta hash_push_approval approvals_push_approval
        push_approval_rest)
qed

text \<open>
  C8. Each call of \<^verbatim>\<open>signDeploy\<close> or \<^verbatim>\<open>setSignature\<close> on a \<^verbatim>\<open>Deploy\<close> appends exactly one
  approval to it, changes nothing else of it, and returns the reference it was given. After
  a sequence of \<open>N\<close> calls the approvals are the ones the \<^verbatim>\<open>Deploy\<close> had before the sequence,
  followed by the \<open>N\<close> new ones in call order. A \<^verbatim>\<open>Deploy\<close> starts, as \<^verbatim>\<open>makeDeploy\<close> returns it,
  without approvals, and approvals arise only by these calls: counted from there, the list has
  length \<open>N\<close> after \<open>N\<close> calls. The keys need not be distinct.
\<close>

theorem signing_appends_in_call_order:
  "fst (signDeploy keys st deploy signingKey) deploy =
     (st deploy)\<lparr>approvals :=
        approvals (st deploy) @ [signDeploy_approval keys (hash (st deploy)) signingKey]\<rparr>
   \<and> snd (signDeploy keys st deploy signingKey) = deploy
   \<and> fst (setSignature keys st deploy sig publicKey) deploy =
     (st deploy)\<lparr>approvals :=
        approvals (st deploy) @ [setSignature_approval keys sig publicKey]\<rparr>
   \<and> snd (setSignature keys st deploy sig publicKey) = deploy
   \<and> approvals (fst (run_calls keys st deploy calls) deploy) =
     approvals (st deploy) @ map (approval_of keys (hash (st deploy))) calls
   \<and> length (approvals (fst (run_calls keys st deploy calls) deploy)) =
     length (approvals (st deploy)) + length calls
   \<and> (approvals (st deploy) = [] \<longrightarrow>
        length (approvals (fst (run_calls keys st deploy calls) deploy)) = length calls)
   \<and> snd (run_calls keys st deploy calls) = replicate (length calls) deploy"
  using run_calls_effect [of keys st deploy calls]
  by (simp add: signDeploy_def setSignature_def push_approval_def Let_def)

theorem signing_appends_in_call_order_witness:
  "approvals
      (fst (run_calls example_keys (example_store(0 := example_signed_deploy\<lparr>approvals := []\<rparr>)) 0
              [SignDeploy example_signingKey, SetSignature [0x0A] example_publicKey]) 0) =
     [\<lparr>signer = ''02ef'', signature = ''020201''\<rparr>, \<lparr>signer = ''01ab'', signature = ''010a''\<rparr>]
   \<and> length (approvals
      (fst (run_calls example_keys (example_store(0 := example_signed_deploy\<lparr>approvals := []\<rparr>)) 0
              [SignDeploy example_signingKey, SetSignature [0x0A] example_publicKey]) 0)) = 2
   \<and> snd (run_calls example_keys (example_store(0 := example_signed_deploy\<lparr>approvals := []\<rparr>)) 0
              [SignDeploy example_signingKey, SetSignature [0x0A] example_publicKey]) = [0, 0]"
proof -
  let ?st = "example_store(0 := example_signed_deploy\<lparr>approvals := []\<rparr>)"
  let ?calls = "[SignDeploy example_signingKey, SetSignature [0x0A] example_publicKey]"
  have hex: "encodeBase16 [0x02, 0x01] = ''0201''" "encodeBase16 [0x0A] = ''0a''"
    by (simp_all add: encodeBase16_def hexDigit_def)
  have a1: "signDeploy_approval example_keys [0x01, 0x02] example_signingKey =
      \<lparr>signer = ''02ef'', signature = ''020201''\<rparr>"
    by (simp add: signDeploy_approval_def example_keys_def example_signingKey_def
        example_Secp256K1_accountHex_def hex)
  have a2: "setSignature_approval example_keys [0x0A] example_publicKey =
      \<lparr>signer = ''01ab'', signature = ''010a''\<rparr>"
    by (simp add: setSignature_approval_def example_keys_def example_publicKey_def
        example_Ed25519_accountHex_def hex)
  have start: "approvals (?st 0) = []" "hash (?st 0) = [0x01, 0x02]"
    "hash example_signed_deploy = [0x01, 0x02]"
    by (simp_all add: example_signed_deploy_def)
  from signing_appends_in_call_order
    [of example_keys ?st 0 example_signingKey "[0x0A]" example_publicKey ?calls]
  have "approvals (fst (run_calls example_keys ?st 0 ?calls) 0) =
      approvals (?st 0) @ map (approval_of example_keys (hash (?st 0))) ?calls"
    and "approvals (?st 0) = [] \<longrightarrow>
      length (approvals (fst (run_calls example_keys ?st 0 ?calls) 0)) = length ?calls"
    and "snd (run_calls example_keys ?st 0 ?calls) = replicate (length ?calls) 0"
    by blast+
  then show ?thesis
    by (simp add: start a1 a2 del: run_calls.simps)
qed

subsection \<open>An instance of the optional-value encoding\<close>

theorem Option_toBytes_encoding_witness:
  "Option_toBytes U32_toBytes \<lparr>t = Some (U32 7), innerType = Some CLTypeHelper_u32\<rparr> =
     [0x01, 7, 0, 0, 0]
   \<and> Option_toBytes U32_toBytes \<lparr>t = None, innerType = Some CLTypeHelper_u32\<rparr> = [0x00]
   \<and> Option_new U32_clType None None = Inl (Error ''You had to assign innerType for None'')"
  using Option_toBytes_encoding
    [of U32_toBytes "\<lparr>t = Some (U32 7), innerType = Some CLTypeHelper_u32\<rparr>" U32_clType]
    Option_toBytes_encoding
    [of U32_toBytes "\<lparr>t = None, innerType = Some CLTypeHelper_u32\<rparr>" U32_clType]
  by (simp add: toBytesU32_little_endian little_endian_def upt_rec)

end
